theory Spec2Isabelle
  imports Complex_Main
begin

section \<open>Values shared by the notebooks\<close>

text \<open>
  The notebooks are Python cells over numpy arrays. Exceptions are values of \<open>error\<close>;
  a computation that can raise returns \<open>error + 'a\<close>, a statement that changes state
  and can raise returns the state reached together with \<open>error option\<close>.
\<close>

datatype error = IndexError | AttributeError | ValueError | SyntaxError

text \<open>
  An IEEE floating-point number as numpy presents it: a finite value, one of the two
  infinities, or NaN. Rounding is not modelled: finite values are real numbers and the
  arithmetic on them is exact. Signed zeros are not distinguished.
\<close>

datatype npfloat = Finite real | PInf | NInf | NaN

instantiation npfloat :: comm_monoid_add
begin

definition zero_npfloat :: npfloat where
  "zero_npfloat = Finite 0"

fun plus_npfloat :: "npfloat \<Rightarrow> npfloat \<Rightarrow> npfloat" where
  "plus_npfloat (Finite a) (Finite b) = Finite (a + b)"
| "plus_npfloat NaN _ = NaN"
| "plus_npfloat _ NaN = NaN"
| "plus_npfloat PInf NInf = NaN"
| "plus_npfloat NInf PInf = NaN"
| "plus_npfloat PInf _ = PInf"
| "plus_npfloat _ PInf = PInf"
| "plus_npfloat NInf _ = NInf"
| "plus_npfloat _ NInf = NInf"

instance
proof
  fix x y z :: npfloat
  show "0 + x = x"
    by (cases x; simp add: zero_npfloat_def)
  show "x + y = y + x"
    by (cases x; cases y; simp)
  show "x + y + z = x + (y + z)"
    by (cases x; cases y; cases z; simp)
qed

end

instantiation npfloat :: one
begin

definition one_npfloat :: npfloat where
  "one_npfloat = Finite 1"

instance ..

end

text \<open>\<^verbatim>\<open>np.isfinite\<close>, \<^verbatim>\<open>np.isnan\<close>, and the comparison \<^verbatim>\<open>x > c\<close> with a finite
  constant (false for NaN).\<close>

fun isfinite :: "npfloat \<Rightarrow> bool" where
  "isfinite (Finite a) = True"
| "isfinite PInf = False"
| "isfinite NInf = False"
| "isfinite NaN = False"

fun isnan :: "npfloat \<Rightarrow> bool" where
  "isnan NaN = True"
| "isnan (Finite a) = False"
| "isnan PInf = False"
| "isnan NInf = False"

fun greater :: "npfloat \<Rightarrow> real \<Rightarrow> bool" where
  "greater (Finite a) c = (a > c)"
| "greater PInf c = True"
| "greater NInf c = False"
| "greater NaN c = False"

text \<open>Division of two finite floats: numpy does not raise on a zero divisor, it
  yields an infinity, or NaN for \<open>0 / 0\<close>.\<close>

definition true_divide :: "real \<Rightarrow> real \<Rightarrow> npfloat" where
  "true_divide x d =
     (if d \<noteq> 0 then Finite (x / d)
      else if x = 0 then NaN
      else if x > 0 then PInf else NInf)"

text \<open>
  A Python \<^verbatim>\<open>for x in it: body\<close> loop over a sequence that the body cannot reach,
  passed by value. The body returns the state it reaches and the exception it raised, if
  any; \<open>None\<close> stands for a body that does not return. The loop leaves at the first
  exception.
\<close>

partial_function (option) for_loop ::
  "('a \<Rightarrow> 's \<Rightarrow> ('s \<times> error option) option) \<Rightarrow> 'a list \<Rightarrow> 's \<Rightarrow> ('s \<times> error option) option" where
  "for_loop body it s =
     (case it of
        [] \<Rightarrow> Some (s, None)
      | x # rest \<Rightarrow>
          (case body x s of
             None \<Rightarrow> None
           | Some (s', Some e) \<Rightarrow> Some (s', Some e)
           | Some (s', None) \<Rightarrow> for_loop body rest s'))"

text \<open>
  The \<^verbatim>\<open>for\<close> statement in general. Python's iterator over a list or an array keeps
  the object and a position \<open>i\<close>; before each round it compares \<open>i\<close> with the length the
  object has then, so a body that makes the object longer is seen by the loop. The object
  iterated is therefore part of the state, read by \<open>seq\<close>; a \<^verbatim>\<open>range\<close> is immutable, and
  for it \<open>seq\<close> is constant. The loop returns the state, the exception that ended it, if
  any, and the number of rounds that completed. It is a partial function: whether it
  returns is a property of the body.
\<close>

partial_function (option) for_in ::
  "('s \<Rightarrow> 'a list) \<Rightarrow> ('a \<Rightarrow> 's \<Rightarrow> ('s \<times> error option) option) \<Rightarrow> nat \<Rightarrow> 's
     \<Rightarrow> ('s \<times> error option \<times> nat) option" where
  "for_in seq body i s =
     (if i < length (seq s)
      then (case body (seq s ! i) s of
              None \<Rightarrow> None
            | Some (s', Some e) \<Rightarrow> Some (s', Some e, i)
            | Some (s', None) \<Rightarrow> for_in seq body (Suc i) s')
      else Some (s, None, i))"

text \<open>A body that appends the element it is given to the list being iterated, as
  \<^verbatim>\<open>for x in xs: xs.append(x)\<close> does. No loop of the notebooks has such a body.\<close>

definition appending :: "'a \<Rightarrow> 'a list \<times> 'b \<Rightarrow> (('a list \<times> 'b) \<times> error option) option" where
  "appending x st = Some ((fst st @ [x], snd st), None)"

section \<open>Notebook 01-Lightcurves: aperture photometry\<close>

text \<open>
  A two-dimensional array is the list of its rows. \<^verbatim>\<open>aperture == 1\<close> compares every
  entry with the scalar; \<^verbatim>\<open>image[mask]\<close> with a boolean mask selects, in row-major
  order, the entries where the mask is true, and raises IndexError when the mask's shape
  differs from the array's. \<^verbatim>\<open>np.sum\<close> of an empty selection is 0; on a selection that
  is not empty it is the fixed-width addition of the array's element type, which rounds,
  overflows to an infinity or wraps around as that type does. That reduction is numpy's
  and is the parameter \<open>reduce\<close>.
  \<^verbatim>\<open>
  def aperture_phot(image,aperture):
      flux = np.sum(image[aperture==1])
      return flux
  \<close>
\<close>

definition same_shape :: "'a list list \<Rightarrow> 'b list list \<Rightarrow> bool" where
  "same_shape a b = (map length a = map length b)"

definition eq_scalar :: "'b list list \<Rightarrow> 'b \<Rightarrow> bool list list" where
  "eq_scalar a v = map (map (\<lambda>x. x = v)) a"

definition bool_index :: "'a list list \<Rightarrow> bool list list \<Rightarrow> error + 'a list" where
  "bool_index a msk =
     (if same_shape a msk
      then Inr (map fst (filter snd (zip (concat a) (concat msk))))
      else Inl IndexError)"

definition np_sum :: "('a list \<Rightarrow> 'r) \<Rightarrow> 'a list \<Rightarrow> 'r::zero" where
  "np_sum reduce xs = (if xs = [] then 0 else reduce xs)"

definition aperture_phot ::
  "('a list \<Rightarrow> 'r::zero) \<Rightarrow> 'a list list \<Rightarrow> 'b::one list list \<Rightarrow> error + 'r" where
  "aperture_phot reduce img aperture =
     (case bool_index img (eq_scalar aperture 1) of
        Inl e \<Rightarrow> Inl e
      | Inr selected \<Rightarrow> (let flux = np_sum reduce selected in Inr flux))"

text \<open>
  In the words of the specification: the positions of the image, row by row, at which
  the aperture equals 1, and an aperture that is empty, with no entry equal to 1.
\<close>

definition aperture_positions :: "'a list list \<Rightarrow> 'b::one list list \<Rightarrow> (nat \<times> nat) list" where
  "aperture_positions img aperture =
     concat (map (\<lambda>i. map (\<lambda>j. (i, j)) (filter (\<lambda>j. aperture ! i ! j = 1) [0..<length (img ! i)]))
               [0..<length img])"


text \<open>
  The light curve of a target pixel file: one aperture sum per frame. The state is the
  array of frames and the list built.
  \<^verbatim>\<open>flux = np.array(list (map (lambda x: aperture_phot(x,aperture), pix['FLUX'])))\<close>
  \<^verbatim>\<open>flux_ffi = np.array(list (map (lambda x: aperture_phot(x, aperture_ffi), pix_ffi['FLUX'])))\<close>
\<close>

definition frame_flux ::
  "('a list \<Rightarrow> 'r::zero) \<Rightarrow> 'b::one list list \<Rightarrow> 'a list list \<Rightarrow> 'a list list list \<times> 'r list
     \<Rightarrow> (('a list list list \<times> 'r list) \<times> error option) option" where
  "frame_flux reduce aperture x st =
     (case st of (pix_flux, acc) \<Rightarrow>
        (case aperture_phot reduce x aperture of
           Inl e \<Rightarrow> Some ((pix_flux, acc), Some e)
         | Inr f \<Rightarrow> Some ((pix_flux, acc @ [f]), None)))"

definition frame_fluxes ::
  "('a list \<Rightarrow> 'r::zero) \<Rightarrow> 'a list list list \<Rightarrow> 'b::one list list
     \<Rightarrow> (('a list list list \<times> 'r list) \<times> error option \<times> nat) option" where
  "frame_fluxes reduce pix_flux aperture = for_in fst (frame_flux reduce aperture) 0 (pix_flux, [])"

section \<open>FITS file handles\<close>

text \<open>
  The statements of a cell, as far as file handles are concerned: a call into a library
  (\<^verbatim>\<open>fits.info\<close>, a download, a print), \<^verbatim>\<open>v = fits.open(path)\<close>, and
  \<^verbatim>\<open>with fits.open(path) as v: body\<close>. The state is the list of handles that are
  open, named by the variable they were bound to. Which statements raise is given by
  \<open>raises\<close>, on the called function's name or the handle's variable. A \<^verbatim>\<open>with\<close> block
  closes its handle when the body is left, by its end or by an exception.
\<close>

datatype stmt = Call string | FitsOpen string | WithFitsOpen string "stmt list"

fun exec_stmt :: "(string \<Rightarrow> bool) \<Rightarrow> stmt \<Rightarrow> string list \<Rightarrow> string list \<times> bool"
  and exec_block :: "(string \<Rightarrow> bool) \<Rightarrow> stmt list \<Rightarrow> string list \<Rightarrow> string list \<times> bool" where
  "exec_stmt raises (Call f) hs = (hs, raises f)"
| "exec_stmt raises (FitsOpen v) hs = (if raises v then (hs, True) else (v # hs, False))"
| "exec_stmt raises (WithFitsOpen v body) hs =
     (if raises v then (hs, True)
      else (case exec_block raises body (v # hs) of (hs', r) \<Rightarrow> (remove1 v hs', r)))"
| "exec_block raises [] hs = (hs, False)"
| "exec_block raises (s # ss) hs =
     (case exec_stmt raises s hs of
        (hs', True) \<Rightarrow> (hs', True)
      | (hs', False) \<Rightarrow> exec_block raises ss hs')"

text \<open>A statement is scoped when every \<^verbatim>\<open>fits.open\<close> in it is the context expression of
  a \<^verbatim>\<open>with\<close> block.\<close>

fun scoped :: "stmt \<Rightarrow> bool" where
  "scoped (Call f) = True"
| "scoped (FitsOpen v) = False"
| "scoped (WithFitsOpen v body) = list_all scoped body"

definition no_exception :: "string \<Rightarrow> bool" where
  "no_exception f = False"

text \<open>
  The cell of 01-Lightcurves that downloads and opens the two files:
  \<^verbatim>\<open>
  lc_file = Observations.download_products(lc_prod)['Local Path'][0]
  fits.info(lc_file)
  lc_fits = fits.open(lc_file)
  print("\n")
  tp_file = Observations.download_products(tp_prod)['Local Path'][0]
  fits.info(tp_file)
  tp_fits = fits.open(tp_file)
  \<close>
  and the cell of the image notebook that reads the full-frame image:
  \<^verbatim>\<open>
  with fits.open(fits_file, mode = "readonly") as hdulist:
      image = hdulist[1].data
      header = hdulist[1].header
      wcs = WCS(header)
  header[:10]
  \<close>
\<close>

definition lightcurves_open_cell :: "stmt list" where
  "lightcurves_open_cell =
     [Call ''download_products(lc_prod)'', Call ''fits.info(lc_file)'', FitsOpen ''lc_fits'',
      Call ''print'',
      Call ''download_products(tp_prod)'', Call ''fits.info(tp_file)'', FitsOpen ''tp_fits'']"

definition image_open_cell :: "stmt list" where
  "image_open_cell =
     [WithFitsOpen ''hdulist'' [Call ''hdulist[1].data'', Call ''hdulist[1].header'', Call ''WCS''],
      Call ''header[:10]'']"

section \<open>Notebook 05-classify-with-ml\<close>

subsection \<open>Importing stella\<close>

text \<open>
  \<^verbatim>\<open>
  # Try to import stella
  try:
      import stella

  # If import fails, install and then import
  except:
      conda run pip install git+https://github.com/afeinstein20/stella
      import stella
  \<close>
  The control flow the cell is written for, over any kernel state \<open>'s\<close>: \<open>imp\<close> is the
  import statement and \<open>inst\<close> the install command; each returns the state it reaches and
  the exception it raised, if any.
\<close>

definition try_import ::
  "('s \<Rightarrow> 's \<times> error option) \<Rightarrow> ('s \<Rightarrow> 's \<times> error option) \<Rightarrow> 's \<Rightarrow> 's \<times> error option" where
  "try_import imp inst s =
     (case imp s of
        (s1, None) \<Rightarrow> (s1, None)
      | (s1, Some e) \<Rightarrow>
          (case inst s1 of
             (s2, Some e') \<Rightarrow> (s2, Some e')
           | (s2, None) \<Rightarrow> imp s2))"

text \<open>
  Before a cell runs, the kernel turns it into Python and compiles it. A line escaped
  with \<^verbatim>\<open>%\<close> or \<^verbatim>\<open>!\<close> is rewritten into a call wherever it stands; a command
  written without the escape is recognised only when it is the whole cell, a single
  line. A cell with a line that is still not Python is rejected with SyntaxError, and
  none of it runs. The install line of the cell above is such a bare command, in a cell
  of five code lines.
\<close>

datatype cell_line = Python string | Escaped string | Bare string

fun is_python :: "cell_line \<Rightarrow> bool" where
  "is_python (Python l) = True"
| "is_python (Escaped l) = False"
| "is_python (Bare l) = False"

fun static_transform :: "cell_line \<Rightarrow> cell_line" where
  "static_transform (Escaped l) = Python l"
| "static_transform (Python l) = Python l"
| "static_transform (Bare l) = Bare l"

fun dynamic_transform :: "cell_line \<Rightarrow> cell_line" where
  "dynamic_transform (Bare l) = Python l"
| "dynamic_transform (Python l) = Python l"
| "dynamic_transform (Escaped l) = Escaped l"

definition transform_cell :: "cell_line list \<Rightarrow> cell_line list" where
  "transform_cell cell =
     (let cell = map static_transform cell
      in if length cell = 1 then map dynamic_transform cell else cell)"

definition import_cell_source :: "cell_line list" where
  "import_cell_source =
     [Python ''try:'',
      Python ''    import stella'',
      Python ''except:'',
      Bare ''    conda run pip install git+https://github.com/afeinstein20/stella'',
      Python ''    import stella'']"

definition run_import_cell ::
  "('s \<Rightarrow> 's \<times> error option) \<Rightarrow> ('s \<Rightarrow> 's \<times> error option) \<Rightarrow> 's \<Rightarrow> 's \<times> error option" where
  "run_import_cell imp inst s =
     (if list_all is_python (transform_cell import_cell_source)
      then try_import imp inst s
      else (s, Some SyntaxError))"

subsection \<open>Removing light curves with NaNs\<close>

text \<open>
  The data of a partition is a three-dimensional array (segment, cadence, channel), its
  labels a one-dimensional array. \<^verbatim>\<open>a[idx]\<close> with a list of indices gathers the entries
  at those indices and raises IndexError when one is out of range.
  \<^verbatim>\<open>
  def remove_nans(input_data):
      idx = []
      for k in range(np.shape(input_data)[0]):
          if len(input_data[k, :, :][np.isnan(input_data[k, :, :])]) == 0:
              idx.append(k)
      return idx
  \<close>
\<close>

record dataset =
  train_data :: "npfloat list list list"
  train_labels :: "int list"
  test_data :: "npfloat list list list"
  test_labels :: "int list"
  val_data :: "npfloat list list list"
  val_labels :: "int list"

definition nan_entries :: "npfloat list list \<Rightarrow> npfloat list" where
  "nan_entries seg = filter isnan (concat seg)"

definition remove_nans_step :: "npfloat list list list \<Rightarrow> nat \<Rightarrow> nat list \<Rightarrow> nat list" where
  "remove_nans_step input_data k idx =
     (if length (nan_entries (input_data ! k)) = 0 then idx @ [k] else idx)"

definition remove_nans :: "npfloat list list list \<Rightarrow> nat list" where
  "remove_nans input_data =
     fold (remove_nans_step input_data) [0..<length input_data] []"

text \<open>The same loop, run as a Python \<^verbatim>\<open>for\<close> loop over \<^verbatim>\<open>range(np.shape(input_data)[0])\<close>.\<close>

definition remove_nans_loop ::
  "npfloat list list list \<Rightarrow> (nat list \<times> error option \<times> nat) option" where
  "remove_nans_loop input_data =
     for_in (\<lambda>idx. [0..<length input_data])
       (\<lambda>k idx. Some (remove_nans_step input_data k idx, None)) 0 []"

definition fancy_index :: "'a list \<Rightarrow> nat list \<Rightarrow> error + 'a list" where
  "fancy_index a idx =
     (if list_all (\<lambda>i. i < length a) idx then Inr (map (\<lambda>i. a ! i) idx) else Inl IndexError)"

text \<open>
  The six assignments of the cell run in order; an exception in one of them leaves the
  dataset as the assignments before it made it.
  \<^verbatim>\<open>
  idx_train = remove_nans(ds.train_data)
  idx_test = remove_nans(ds.test_data)
  idx_val = remove_nans(ds.val_data)

  ds.train_data = ds.train_data[idx_train]
  ds.train_labels = ds.train_labels[idx_train]

  ds.test_data = ds.test_data[idx_test]
  ds.test_labels = ds.test_labels[idx_test]

  ds.val_data = ds.val_data[idx_val]
  ds.val_labels = ds.val_labels[idx_val]
  \<close>
\<close>

definition assign ::
  "(dataset \<Rightarrow> error + 'a) \<Rightarrow> (dataset \<Rightarrow> 'a \<Rightarrow> dataset) \<Rightarrow> dataset \<times> error option
     \<Rightarrow> dataset \<times> error option" where
  "assign rhs store st =
     (case st of
        (ds, Some e) \<Rightarrow> (ds, Some e)
      | (ds, None) \<Rightarrow>
          (case rhs ds of
             Inl e \<Rightarrow> (ds, Some e)
           | Inr v \<Rightarrow> (store ds v, None)))"

definition nan_filter_cell :: "dataset \<Rightarrow> dataset \<times> error option" where
  "nan_filter_cell ds =
     (let idx_train = remove_nans (train_data ds);
          idx_test = remove_nans (test_data ds);
          idx_val = remove_nans (val_data ds);
          st = (ds, None);
          st = assign (\<lambda>ds. fancy_index (train_data ds) idx_train) (\<lambda>ds v. ds\<lparr>train_data := v\<rparr>) st;
          st = assign (\<lambda>ds. fancy_index (train_labels ds) idx_train) (\<lambda>ds v. ds\<lparr>train_labels := v\<rparr>) st;
          st = assign (\<lambda>ds. fancy_index (test_data ds) idx_test) (\<lambda>ds v. ds\<lparr>test_data := v\<rparr>) st;
          st = assign (\<lambda>ds. fancy_index (test_labels ds) idx_test) (\<lambda>ds v. ds\<lparr>test_labels := v\<rparr>) st;
          st = assign (\<lambda>ds. fancy_index (val_data ds) idx_val) (\<lambda>ds v. ds\<lparr>val_data := v\<rparr>) st;
          st = assign (\<lambda>ds. fancy_index (val_labels ds) idx_val) (\<lambda>ds v. ds\<lparr>val_labels := v\<rparr>) st
      in st)"

definition nan_free :: "npfloat list list \<Rightarrow> bool" where
  "nan_free seg = list_all (\<lambda>x. \<not> isnan x) (concat seg)"

definition library_dataset :: dataset where
  "library_dataset =
     \<lparr>train_data = [[[Finite 1], [NaN]], [[Finite 2], [Finite 3]]], train_labels = [1, 0],
      test_data = [[[Finite 4], [Finite 5]]], test_labels = [0],
      val_data = [[[Finite 6], [Finite 7]]], val_labels = [1]\<rparr>"

subsection \<open>The confusion matrix\<close>

text \<open>
  \<^verbatim>\<open>
  predictions = cnn.predict(input_data)
  predictions = (predictions > 0.5).astype('int32')
  cm = metrics.confusion_matrix(input_labels, predictions, labels=[0, 1])
  cm = cm.astype('float')
  cm_norm = cm / cm.sum(axis=1)[:, np.newaxis]
  \<close>
  The network is the function \<open>predict\<close>. The library's confusion matrix for the labels
  0 and 1 has, in row \<open>i\<close> and column \<open>j\<close>, the number of samples of true label \<open>i\<close> that
  are predicted \<open>j\<close>; it raises ValueError when the two arrays differ in length, or when
  there are samples and none has one of the two labels.
\<close>

definition binarize :: "npfloat list \<Rightarrow> int list" where
  "binarize predictions = map (\<lambda>p. if greater p (1 / 2) then 1 else 0) predictions"

definition confusion_matrix :: "int list \<Rightarrow> int list \<Rightarrow> error + nat list list" where
  "confusion_matrix y_true y_pred =
     (if length y_true \<noteq> length y_pred then Inl ValueError
      else if y_true \<noteq> [] \<and> list_all (\<lambda>t. t \<noteq> 0 \<and> t \<noteq> 1) y_true then Inl ValueError
      else Inr (map (\<lambda>i. map (\<lambda>j. length (filter (\<lambda>(t, p). t = i \<and> p = j) (zip y_true y_pred)))
                      [0, 1]) [0, 1]))"

definition astype_float :: "nat list list \<Rightarrow> real list list" where
  "astype_float cm = map (map real) cm"

definition sum_axis1 :: "real list list \<Rightarrow> real list" where
  "sum_axis1 cm = map sum_list cm"

definition normalize_rows :: "real list list \<Rightarrow> npfloat list list" where
  "normalize_rows cm = map2 (\<lambda>row s. map (\<lambda>x. true_divide x s) row) cm (sum_axis1 cm)"

text \<open>\<open>plot_confusion_matrix\<close> returns nothing; the model returns the matrix \<open>cm_norm\<close>
  that it hands to \<^verbatim>\<open>ax.matshow\<close>.\<close>

definition plot_confusion_matrix ::
  "('d \<Rightarrow> npfloat list) \<Rightarrow> 'd \<Rightarrow> int list \<Rightarrow> error + npfloat list list" where
  "plot_confusion_matrix cnn input_data input_labels =
     (let predictions = cnn input_data;
          predictions = binarize predictions
      in case confusion_matrix input_labels predictions of
           Inl e \<Rightarrow> Inl e
         | Inr cm \<Rightarrow>
             (let cm = astype_float cm;
                  cm_norm = normalize_rows cm
              in Inr cm_norm))"

text \<open>
  The annotation of the heatmap, with the drawing call \<^verbatim>\<open>ax.text\<close> as \<open>ax_text\<close>:
  \<^verbatim>\<open>
  for i in range(cm_norm.shape[0]):
      for j in range(cm_norm.shape[1]):
          ax.text(j, i, format(cm_norm[i, j], fmt), ...)
  \<close>
\<close>

definition shape0 :: "'a list list \<Rightarrow> nat" where
  "shape0 a = length a"

definition shape1 :: "'a list list \<Rightarrow> nat" where
  "shape1 a = (case a of [] \<Rightarrow> 0 | row # _ \<Rightarrow> length row)"

definition annotate_row ::
  "(nat \<Rightarrow> nat \<Rightarrow> 'f \<Rightarrow> 'f \<times> error option) \<Rightarrow> npfloat list list \<Rightarrow> nat \<Rightarrow> 'f
     \<Rightarrow> ('f \<times> error option) option" where
  "annotate_row ax_text cm_norm i fig =
     map_option (\<lambda>r. (fst r, fst (snd r)))
       (for_in (\<lambda>fig. [0..<shape1 cm_norm]) (\<lambda>j fig. Some (ax_text j i fig)) 0 fig)"

definition annotate ::
  "(nat \<Rightarrow> nat \<Rightarrow> 'f \<Rightarrow> 'f \<times> error option) \<Rightarrow> npfloat list list \<Rightarrow> 'f
     \<Rightarrow> ('f \<times> error option \<times> nat) option" where
  "annotate ax_text cm_norm fig =
     for_in (\<lambda>fig. [0..<shape0 cm_norm]) (annotate_row ax_text cm_norm) 0 fig"

subsection \<open>The loops over targets and light curves\<close>

text \<open>
  The two comprehensions that pull the examples, over the array of indices drawn:
  \<^verbatim>\<open>
  example_lightcurves = [ds.train_data[j] for j in example_ids]
  example_labels = [ds.train_labels[j] for j in example_ids]
  \<close>
  Both are \<open>gather\<close>, of the data and of the labels. The state is the array of indices and
  the list built; an index out of range raises IndexError.
\<close>

definition gather_body ::
  "'a list \<Rightarrow> nat \<Rightarrow> nat list \<times> 'a list \<Rightarrow> ((nat list \<times> 'a list) \<times> error option) option" where
  "gather_body a j st =
     (case st of (example_ids, acc) \<Rightarrow>
        (if j < length a then Some ((example_ids, acc @ [a ! j]), None)
         else Some ((example_ids, acc), Some IndexError)))"

definition gather ::
  "'a list \<Rightarrow> nat list \<Rightarrow> ((nat list \<times> 'a list) \<times> error option \<times> nat) option" where
  "gather a example_ids = for_in fst (gather_body a) 0 (example_ids, [])"

text \<open>
  \<^verbatim>\<open>
  for i in range(len(example_ids)):
      plt.subplot(4, 4, i + 1)
      ...
  \<close>
  with the body's plotting calls as \<open>plot\<close>.
\<close>

definition plot_examples ::
  "(nat \<Rightarrow> 'f \<Rightarrow> 'f \<times> error option) \<Rightarrow> 'i list \<Rightarrow> 'f \<Rightarrow> ('f \<times> error option \<times> nat) option" where
  "plot_examples plot example_ids fig =
     for_in (\<lambda>fig. [0..<length example_ids]) (\<lambda>i fig. Some (plot i fig)) 0 fig"

text \<open>
  \<^verbatim>\<open>
  ticids = ['120461526', '278779899', '139754153', '273418879', '52121469', '188580272',
            '394015919', '206544316']
  lcs = []
  for name in ticids:
      lc = search_lightcurve(target='TIC'+name, mission='TESS', sector=sectors, author='SPOC')
      lc = lc.download_all()
      lcs.append(lc)
  \<close>
  The search and the download are library calls, \<open>search_lightcurve\<close> and \<open>download_all\<close>.
  The state is the two lists, \<^verbatim>\<open>ticids\<close> and \<^verbatim>\<open>lcs\<close>.
\<close>

record lightcurve =
  flux :: "npfloat list"
  flux_err :: "npfloat list"

definition ticids :: "string list" where
  "ticids = [''120461526'', ''278779899'', ''139754153'', ''273418879'', ''52121469'',
             ''188580272'', ''394015919'', ''206544316'']"

definition download_body ::
  "(string \<Rightarrow> error + 'r) \<Rightarrow> ('r \<Rightarrow> error + lightcurve list) \<Rightarrow> string
     \<Rightarrow> string list \<times> lightcurve list list
     \<Rightarrow> ((string list \<times> lightcurve list list) \<times> error option) option" where
  "download_body search_lightcurve download_all name st =
     (case st of (targets, lcs) \<Rightarrow>
        (case search_lightcurve (''TIC'' @ name) of
           Inl e \<Rightarrow> Some ((targets, lcs), Some e)
         | Inr lc \<Rightarrow>
             (case download_all lc of
                Inl e \<Rightarrow> Some ((targets, lcs), Some e)
              | Inr lc \<Rightarrow> Some ((targets, lcs @ [lc]), None))))"

definition download_targets ::
  "(string \<Rightarrow> error + 'r) \<Rightarrow> ('r \<Rightarrow> error + lightcurve list)
     \<Rightarrow> ((string list \<times> lightcurve list list) \<times> error option \<times> nat) option" where
  "download_targets search_lightcurve download_all =
     for_in fst (download_body search_lightcurve download_all) 0 (ticids, [])"

text \<open>
  \<^verbatim>\<open>
  for lc in lcs:
      if len(lc) > 0:
          lc = lc[0]
      if not np.all(np.isfinite(lc.flux)):
          print('Non-finite number found!')
  \<close>
  The loop variable holds a collection of light curves, or after the first statement a
  light curve. A light curve has a flux array; a collection has no attribute of that name,
  and asking for it raises AttributeError. The state of the loop is the text printed.
\<close>

datatype lc_var = Collection "lightcurve list" | LightCurve lightcurve

fun get_flux :: "lc_var \<Rightarrow> error + npfloat list" where
  "get_flux (LightCurve l) = Inr (flux l)"
| "get_flux (Collection c) = Inl AttributeError"

definition np_all :: "bool list \<Rightarrow> bool" where
  "np_all bs = list_all (\<lambda>b. b) bs"

definition quality_check_body ::
  "lightcurve list \<Rightarrow> string list \<Rightarrow> (string list \<times> error option) option" where
  "quality_check_body c out =
     (let lc = Collection c;
          lc = (if length c > 0 then LightCurve (c ! 0) else lc)
      in case get_flux lc of
           Inl e \<Rightarrow> Some (out, Some e)
         | Inr fl \<Rightarrow>
             (if \<not> np_all (map isfinite fl)
              then Some (out @ [''Non-finite number found!''], None)
              else Some (out, None)))"

definition quality_check ::
  "lightcurve list list \<Rightarrow> string list \<Rightarrow> (string list \<times> error option) option" where
  "quality_check lcs out = for_loop quality_check_body lcs out"

text \<open>The same loop with the list \<^verbatim>\<open>lcs\<close> in the state, beside the text printed.\<close>

definition quality_check_step ::
  "lightcurve list \<Rightarrow> lightcurve list list \<times> string list
     \<Rightarrow> ((lightcurve list list \<times> string list) \<times> error option) option" where
  "quality_check_step c st =
     (case st of (lcs, out) \<Rightarrow>
        map_option (\<lambda>r. ((lcs, fst r), snd r)) (quality_check_body c out))"

definition quality_check_cell ::
  "lightcurve list list \<Rightarrow> string list
     \<Rightarrow> ((lightcurve list list \<times> string list) \<times> error option \<times> nat) option" where
  "quality_check_cell lcs out = for_in fst quality_check_step 0 (lcs, out)"

text \<open>
  \<^verbatim>\<open>
  for i, lc in enumerate(lcs):
      if len(lc)>0: lc = lc[0]
      cnn_stella.predict(cnn_file, times=lc.time.value, fluxes=lc.flux, errs=lc.flux_err)
      ax = fig.add_subplot(4,2,i+1)
      ...
  \<close>
  with the prediction and the plotting calls as \<open>predict_plot\<close>. The state is the list
  \<^verbatim>\<open>lcs\<close> and the figure; \<^verbatim>\<open>enumerate\<close> numbers the list as it is at each round.
\<close>

definition enumerate_list :: "'a list \<Rightarrow> (nat \<times> 'a) list" where
  "enumerate_list xs = zip [0..<length xs] xs"

definition predict_body ::
  "(nat \<Rightarrow> lightcurve \<Rightarrow> 'f \<Rightarrow> 'f \<times> error option) \<Rightarrow> nat \<times> lightcurve list
     \<Rightarrow> lightcurve list list \<times> 'f \<Rightarrow> ((lightcurve list list \<times> 'f) \<times> error option) option" where
  "predict_body predict_plot ic st =
     (case ic of (i, c) \<Rightarrow>
        (case st of (lcs, fig) \<Rightarrow>
           (if length c > 0
            then (case predict_plot i (c ! 0) fig of (fig', e) \<Rightarrow> Some ((lcs, fig'), e))
            else Some ((lcs, fig), Some AttributeError))))"

definition predict_targets ::
  "(nat \<Rightarrow> lightcurve \<Rightarrow> 'f \<Rightarrow> 'f \<times> error option) \<Rightarrow> lightcurve list list \<Rightarrow> 'f
     \<Rightarrow> ((lightcurve list list \<times> 'f) \<times> error option \<times> nat) option" where
  "predict_targets predict_plot lcs fig =
     for_in (\<lambda>st. enumerate_list (fst st)) (predict_body predict_plot) 0 (lcs, fig)"

section \<open>Example inputs\<close>






text \<open>Four predictions, one of them exactly 0.5 and one NaN, with their labels.\<close>

definition example_predictions :: "npfloat list" where
  "example_predictions = [Finite (9 / 10), Finite (1 / 2), Finite (7 / 10), NaN]"

definition example_labels :: "int list" where
  "example_labels = [1, 0, 0, 1]"

text \<open>A light curve with an infinite flux value and one without.\<close>

definition flagged :: lightcurve where
  "flagged = \<lparr>flux = [Finite 1, PInf], flux_err = [Finite 0, Finite 0]\<rparr>"

definition clean :: lightcurve where
  "clean = \<lparr>flux = [Finite 1, Finite 2], flux_err = [Finite 0, Finite 0]\<rparr>"

section \<open>The loop over a sequence passed by value\<close>

lemma for_loop_Nil: "for_loop body [] s = Some (s, None)"
  by (simp add: for_loop.simps)

lemma for_loop_Cons:
  "for_loop body (x # rest) s =
     (case body x s of
        None \<Rightarrow> None
      | Some (s', Some e) \<Rightarrow> Some (s', Some e)
      | Some (s', None) \<Rightarrow> for_loop body rest s')"
  by (subst for_loop.simps) simp

lemma quality_check_body_eq:
  "quality_check_body c out =
     Some (if c = [] then (out, Some AttributeError)
           else (out @ (if list_ex (\<lambda>x. \<not> isfinite x) (flux (c ! 0))
                        then [''Non-finite number found!''] else []), None))"
  by (cases c) (auto simp: quality_check_body_def np_all_def list_all_iff list_ex_iff)

lemma for_loop_quality:
  assumes "\<And>c out. body c out =
     Some (if c = [] then (out, Some AttributeError)
           else (out @ (if list_ex (\<lambda>x. \<not> isfinite x) (flux (c ! 0))
                        then [''Non-finite number found!''] else []), None))"
  shows "for_loop body lcs out =
     Some (out @ concat (map (\<lambda>c. if list_ex (\<lambda>x. \<not> isfinite x) (flux (c ! 0))
                                   then [''Non-finite number found!''] else [])
                            (takeWhile (\<lambda>c. c \<noteq> []) lcs)),
           if list_all (\<lambda>c. c \<noteq> []) lcs then None else Some AttributeError)"
proof (induction lcs arbitrary: out)
  case Nil
  show ?case by (simp add: for_loop_Nil)
next
  case (Cons c lcs)
  show ?case
    by (cases "c = []")
       (simp_all add: for_loop_Cons assms[of c out] assms[of "[]" out] Cons.IH)
qed

lemma quality_check_eq:
  "quality_check lcs out =
     Some (out @ concat (map (\<lambda>c. if list_ex (\<lambda>x. \<not> isfinite x) (flux (c ! 0))
                                   then [''Non-finite number found!''] else [])
                            (takeWhile (\<lambda>c. c \<noteq> []) lcs)),
           if list_all (\<lambda>c. c \<noteq> []) lcs then None else Some AttributeError)"
  unfolding quality_check_def by (rule for_loop_quality) (rule quality_check_body_eq)

section \<open>The quality check\<close>

text \<open>
  \<^bold>\<open>C5.\<close> The quality check returns on every list of collections. It goes through the
  collections up to the first empty one, where asking the collection for its flux raises
  and ends the loop. For each collection it goes through, it prints the warning exactly
  when the flux of the light curve checked, the first of the collection, has a value that
  is not finite; it prints nothing else. Its only state is the printed text: the light
  curves are read, not written.
\<close>

theorem quality_check_warns_iff_non_finite:
  "quality_check lcs out =
     Some (out @ concat (map (\<lambda>c. if list_ex (\<lambda>x. \<not> isfinite x) (flux (c ! 0))
                                   then [''Non-finite number found!''] else [])
                            (takeWhile (\<lambda>c. c \<noteq> []) lcs)),
           if list_all (\<lambda>c. c \<noteq> []) lcs then None else Some AttributeError)"
  by (rule quality_check_eq)

theorem quality_check_warns_iff_non_finite_witness:
  "quality_check [[clean, flagged], [flagged], [clean]] []
     = Some ([''Non-finite number found!''], None)"
  using quality_check_warns_iff_non_finite[of "[[clean, flagged], [flagged], [clean]]" "[]"]
  by (simp add: clean_def flagged_def)

section \<open>Loops return\<close>

text \<open>
  A loop returns when its body returns and leaves the sequence iterated as it found it;
  it then runs at most as many rounds as the sequence is long.
\<close>

lemma for_in_returns:
  assumes fixed: "\<And>x s s' e. body x s = Some (s', e) \<Longrightarrow> seq s' = seq s"
    and ret: "\<And>x s. body x s \<noteq> None"
  shows "\<exists>s' e n. for_in seq body i s = Some (s', e, n) \<and> n \<le> max i (length (seq s)) \<and> seq s' = seq s"
proof (induction "length (seq s) - i" arbitrary: i s)
  case 0
  then show ?case by (subst for_in.simps) simp
next
  case (Suc m)
  then have lt: "i < length (seq s)" by simp
  obtain s' eo where b: "body (seq s ! i) s = Some (s', eo)"
    using ret[of "seq s ! i" s] by (cases "body (seq s ! i) s") auto
  have sq: "seq s' = seq s" using fixed[OF b] .
  show ?case
  proof (cases eo)
    case (Some e)
    then show ?thesis using lt b sq by (subst for_in.simps) simp
  next
    case None
    have "m = length (seq s') - Suc i" using Suc(2) sq by simp
    from Suc(1)[OF this] obtain s'' e n where
      r: "for_in seq body (Suc i) s' = Some (s'', e, n)" "n \<le> max (Suc i) (length (seq s'))" "seq s'' = seq s'"
      by blast
    have "for_in seq body i s = Some (s'', e, n)"
      using lt b None r(1) by (subst for_in.simps) simp
    then show ?thesis using r(2,3) sq lt by auto
  qed
qed

lemma for_in_returns_0:
  assumes "\<And>x s s' e. body x s = Some (s', e) \<Longrightarrow> seq s' = seq s"
    and "\<And>x s. body x s \<noteq> None"
  shows "\<exists>s' e n. for_in seq body 0 s = Some (s', e, n) \<and> n \<le> length (seq s) \<and> seq s' = seq s"
  using for_in_returns[of body seq 0 s, OF assms] by simp

lemma for_in_fst_returns:
  assumes "\<And>x q t s' e. body x (q, t) = Some (s', e) \<Longrightarrow> fst s' = q"
    and "\<And>x s. body x s \<noteq> None"
  shows "\<exists>t' e n. for_in fst body 0 (q, t) = Some ((q, t'), e, n) \<and> n \<le> length q"
proof -
  have fx: "\<And>x s s' e. body x s = Some (s', e) \<Longrightarrow> fst s' = fst s"
    using assms(1) by (metis prod.collapse)
  have "\<exists>s' e n. for_in fst body 0 (q, t) = Some (s', e, n)
      \<and> n \<le> length (fst (q, t)) \<and> fst s' = fst (q, t)"
    by (rule for_in_returns_0) (fact fx, fact assms(2))
  then obtain s' e n where "for_in fst body 0 (q, t) = Some (s', e, n)" "n \<le> length q" "fst s' = q"
    by auto
  then show ?thesis by (cases s') auto
qed

lemma for_in_range_returns:
  assumes "\<And>x s. body x s \<noteq> None"
  shows "\<exists>s' e n. for_in (\<lambda>s. xs) body 0 s = Some (s', e, n) \<and> n \<le> length xs"
proof -
  have "\<exists>s' e n. for_in (\<lambda>s. xs) body 0 s = Some (s', e, n)
      \<and> n \<le> length ((\<lambda>s. xs) s) \<and> (\<lambda>s. xs) s' = (\<lambda>s. xs) s"
    by (rule for_in_returns_0) (simp, fact assms)
  then show ?thesis by auto
qed

text \<open>
  Without the second condition it need not: the loop whose body appends to the list it
  iterates never returns.
\<close>

lemma for_in_diverges_aux:
  assumes "for_in seq body i s = Some r"
  shows "seq = fst \<longrightarrow> body = appending \<longrightarrow> i < length (fst s) \<longrightarrow> False"
  using assms
proof (rule for_in.raw_induct[rotated, where P = "\<lambda>seq body i s r.
        seq = fst \<longrightarrow> body = appending \<longrightarrow> i < length (fst s) \<longrightarrow> False"])
  fix f seq body i and s :: "'a list \<times> 'b" and r
  assume IH: "\<And>seq body i (s :: 'a list \<times> 'b) r. f seq body i s = Some r \<Longrightarrow>
      seq = fst \<longrightarrow> body = appending \<longrightarrow> i < length (fst s) \<longrightarrow> False"
    and eq: "(if i < length (seq s)
        then case body (seq s ! i) s of None \<Rightarrow> None
             | Some (s', None) \<Rightarrow> f seq body (Suc i) s'
             | Some (s', Some e) \<Rightarrow> Some (s', Some e, i)
        else Some (s, None, i)) = Some r"
  show "seq = fst \<longrightarrow> body = appending \<longrightarrow> i < length (fst s) \<longrightarrow> False"
  proof (intro impI)
    assume h: "seq = fst" "body = appending" "i < length (fst s)"
    with eq have "f fst appending (Suc i) (fst s @ [fst s ! i], snd s) = Some r"
      by (simp add: appending_def)
    from IH[OF this] h(3) show False by simp
  qed
qed

lemma for_in_appending_diverges:
  assumes "i < length xs"
  shows "for_in fst appending i (xs, k) = None"
proof (cases "for_in fst appending i (xs, k)")
  case None
  then show ?thesis .
next
  case (Some r)
  from for_in_diverges_aux[OF Some] assms show ?thesis by simp
qed

lemma for_in_range_fold:
  "i \<le> n \<Longrightarrow> for_in (\<lambda>s. [0..<n]) (\<lambda>k s. Some (f k s, None)) i s = Some (fold f [i..<n] s, None, n)"
proof (induction "n - i" arbitrary: i s)
  case 0
  then show ?case by (subst for_in.simps) simp
next
  case (Suc m)
  then have lt: "i < n" by simp
  have "m = n - Suc i" "Suc i \<le> n" using Suc(2) by simp_all
  note IH = Suc(1)[OF this, of "f i s"]
  have u: "[i..<n] = i # [Suc i..<n]" using lt by (rule upt_conv_Cons)
  have nth: "[0..<n] ! i = i" using lt by simp
  show ?case
    by (subst for_in.simps) (simp add: lt u nth IH)
qed

lemma remove_nans_loop_eq:
  "remove_nans_loop input_data = Some (remove_nans input_data, None, length input_data)"
  by (simp add: remove_nans_loop_def remove_nans_def for_in_range_fold)

lemma for_in_quality:
  "i \<le> length lcs \<Longrightarrow>
   \<exists>out' e n. for_in fst quality_check_step i (lcs, out) = Some ((lcs, out'), e, n)
      \<and> n \<le> length lcs \<and> for_loop quality_check_body (drop i lcs) out = Some (out', e)"
proof (induction "length lcs - i" arbitrary: i out)
  case 0
  then show ?case by (subst for_in.simps) (simp add: for_loop_Nil)
next
  case (Suc m)
  then have lt: "i < length lcs" by simp
  have d: "drop i lcs = lcs ! i # drop (Suc i) lcs"
    using lt by (simp add: Cons_nth_drop_Suc)
  obtain out1 eo where b: "quality_check_body (lcs ! i) out = Some (out1, eo)"
    by (cases "lcs ! i = []") (simp_all add: quality_check_body_eq)
  show ?case
  proof (cases eo)
    case (Some e)
    have "for_in fst quality_check_step i (lcs, out) = Some ((lcs, out1), Some e, i)"
      using lt b Some by (subst for_in.simps) (simp add: quality_check_step_def)
    moreover have "for_loop quality_check_body (drop i lcs) out = Some (out1, Some e)"
      using b Some by (simp add: d for_loop_Cons)
    ultimately show ?thesis using lt by simp
  next
    case None
    have "m = length lcs - Suc i" "Suc i \<le> length lcs" using Suc(2) by simp_all
    from Suc(1)[OF this, of out1] obtain out' e n where
      r: "for_in fst quality_check_step (Suc i) (lcs, out1) = Some ((lcs, out'), e, n)"
         "n \<le> length lcs" "for_loop quality_check_body (drop (Suc i) lcs) out1 = Some (out', e)"
      by blast
    have "for_in fst quality_check_step i (lcs, out) = Some ((lcs, out'), e, n)"
      using lt b None r(1) by (subst for_in.simps) (simp add: quality_check_step_def)
    moreover have "for_loop quality_check_body (drop i lcs) out = Some (out', e)"
      using b None r(3) by (simp add: d for_loop_Cons)
    ultimately show ?thesis using r(2) by simp
  qed
qed

lemma quality_check_cell_eq:
  "\<exists>out' e n. quality_check_cell lcs out = Some ((lcs, out'), e, n)
      \<and> n \<le> length lcs \<and> quality_check lcs out = Some (out', e)"
  using for_in_quality[of 0 lcs out] by (simp add: quality_check_cell_def quality_check_def)

lemma annotate_row_returns: "annotate_row ax_text cm_norm i fig \<noteq> None"
  using for_in_range_returns[of "\<lambda>j fig. Some (ax_text j i fig)" "[0..<shape1 cm_norm]" fig]
  by (auto simp: annotate_row_def)

text \<open>
  \<^bold>\<open>C7.\<close> Every loop of the notebooks returns, on every input, after at most as many
  rounds as its sequence is long, and leaves that sequence as it was: the loop of
  \<open>remove_nans\<close> over the range of the input's first dimension (exactly that many rounds,
  with the indices \<open>remove_nans\<close> computes), the two comprehensions over the example
  indices, the loop that plots the examples, the two nested loops that annotate the
  confusion matrix, the loop over the eight targets, the quality check and the prediction
  loop over the downloaded collections, and the map of \<open>aperture_phot\<close> over the frames
  in both of its uses. The library calls inside the bodies are functions, so they are
  taken to return.
\<close>

theorem notebook_loops_return:
  "remove_nans_loop input_data = Some (remove_nans input_data, None, length input_data)
   \<and> (\<exists>acc e n. gather train_data' example_ids = Some ((example_ids, acc), e, n) \<and> n \<le> length example_ids)
   \<and> (\<exists>acc e n. gather train_labels' example_ids = Some ((example_ids, acc), e, n) \<and> n \<le> length example_ids)
   \<and> (\<exists>fig e n. plot_examples plot example_ids fig1 = Some (fig, e, n) \<and> n \<le> length example_ids)
   \<and> (\<exists>fig e n. annotate ax_text cm_norm fig2 = Some (fig, e, n) \<and> n \<le> shape0 cm_norm)
   \<and> (\<exists>lcs' e n. download_targets search_lightcurve download_all = Some ((ticids, lcs'), e, n) \<and> n \<le> 8)
   \<and> (\<exists>out' e n. quality_check_cell lcs out = Some ((lcs, out'), e, n) \<and> n \<le> length lcs
         \<and> quality_check lcs out = Some (out', e))
   \<and> (\<exists>fig e n. predict_targets predict_plot lcs fig3 = Some ((lcs, fig), e, n) \<and> n \<le> length lcs)
   \<and> (\<exists>acc e n. frame_fluxes reduce pix_flux aperture = Some ((pix_flux, acc), e, n) \<and> n \<le> length pix_flux)"
proof (intro conjI)
  show "remove_nans_loop input_data = Some (remove_nans input_data, None, length input_data)"
    by (rule remove_nans_loop_eq)
  show "\<exists>acc e n. gather train_data' example_ids = Some ((example_ids, acc), e, n) \<and> n \<le> length example_ids"
    unfolding gather_def
    by (rule for_in_fst_returns) (auto simp: gather_body_def split: if_splits)
  show "\<exists>acc e n. gather train_labels' example_ids = Some ((example_ids, acc), e, n) \<and> n \<le> length example_ids"
    unfolding gather_def
    by (rule for_in_fst_returns) (auto simp: gather_body_def split: if_splits)
  show "\<exists>fig e n. plot_examples plot example_ids fig1 = Some (fig, e, n) \<and> n \<le> length example_ids"
    using for_in_range_returns[of "\<lambda>i fig. Some (plot i fig)" "[0..<length example_ids]" fig1]
    by (simp add: plot_examples_def)
  show "\<exists>fig e n. annotate ax_text cm_norm fig2 = Some (fig, e, n) \<and> n \<le> shape0 cm_norm"
    using for_in_range_returns[of "annotate_row ax_text cm_norm" "[0..<shape0 cm_norm]" fig2]
    by (simp add: annotate_def annotate_row_returns)
  show "\<exists>lcs' e n. download_targets search_lightcurve download_all = Some ((ticids, lcs'), e, n) \<and> n \<le> 8"
  proof -
    have "\<exists>t' e n. for_in fst (download_body search_lightcurve download_all) 0 (ticids, [])
        = Some ((ticids, t'), e, n) \<and> n \<le> length ticids"
      by (rule for_in_fst_returns) (auto simp: download_body_def split: sum.splits)
    moreover have "length ticids = 8" by (simp add: ticids_def)
    ultimately show ?thesis by (simp add: download_targets_def)
  qed
  show "\<exists>out' e n. quality_check_cell lcs out = Some ((lcs, out'), e, n) \<and> n \<le> length lcs
         \<and> quality_check lcs out = Some (out', e)"
    by (rule quality_check_cell_eq)
  show "\<exists>fig e n. predict_targets predict_plot lcs fig3 = Some ((lcs, fig), e, n) \<and> n \<le> length lcs"
  proof -
    have p: "\<And>x s s' e. predict_body predict_plot x s = Some (s', e) \<Longrightarrow>
        enumerate_list (fst s') = enumerate_list (fst s)"
      by (auto simp: predict_body_def split: prod.splits if_splits)
    have q: "\<And>x s. predict_body predict_plot x s \<noteq> None"
      by (auto simp: predict_body_def split: prod.splits if_splits)
    have "\<exists>s' e n. for_in (\<lambda>st. enumerate_list (fst st)) (predict_body predict_plot) 0 (lcs, fig3)
          = Some (s', e, n)
        \<and> n \<le> length ((\<lambda>st. enumerate_list (fst st)) (lcs, fig3))
        \<and> (\<lambda>st. enumerate_list (fst st)) s' = (\<lambda>st. enumerate_list (fst st)) (lcs, fig3)"
      by (rule for_in_returns_0) (fact p, fact q)
    then obtain s' e n where r: "predict_targets predict_plot lcs fig3 = Some (s', e, n)"
      "n \<le> length lcs" "enumerate_list (fst s') = enumerate_list lcs"
      by (auto simp: predict_targets_def) (simp add: enumerate_list_def)
    from r(3) have "map snd (enumerate_list (fst s')) = map snd (enumerate_list lcs)" by simp
    then have "fst s' = lcs" by (simp add: enumerate_list_def)
    with r(1,2) show ?thesis by (cases s') auto
  qed
  show "\<exists>acc e n. frame_fluxes reduce pix_flux aperture = Some ((pix_flux, acc), e, n) \<and> n \<le> length pix_flux"
    unfolding frame_fluxes_def
    by (rule for_in_fst_returns) (auto simp: frame_flux_def split: sum.splits)
qed

theorem notebook_loops_return_witness:
  "remove_nans_loop (train_data library_dataset) = Some ([1], None, 2)
   \<and> (\<exists>n. quality_check_cell [[flagged], [], [clean]] []
          = Some (([[flagged], [], [clean]], [''Non-finite number found!'']), Some AttributeError, n)
        \<and> n \<le> 3)"
proof -
  note loops = notebook_loops_return[where input_data = "train_data library_dataset"
      and lcs = "[[flagged], [], [clean]]" and out = "[]"]
  have "remove_nans (train_data library_dataset) = [1]"
    by (simp add: library_dataset_def remove_nans_def remove_nans_step_def nan_entries_def upt_rec)
  with loops[THEN conjunct1]
  have a: "remove_nans_loop (train_data library_dataset) = Some ([1], None, 2)"
    by (simp add: library_dataset_def)
  have q: "quality_check [[flagged], [], [clean]] []
      = Some ([''Non-finite number found!''], Some AttributeError)"
    by (simp add: quality_check_eq flagged_def)
  from loops[THEN conjunct2, THEN conjunct2, THEN conjunct2, THEN conjunct2, THEN conjunct2,
      THEN conjunct2, THEN conjunct1]
  obtain out' e n where r: "quality_check_cell [[flagged], [], [clean]] []
        = Some (([[flagged], [], [clean]], out'), e, n)"
      "n \<le> length [[flagged], [], [clean]]"
      "quality_check [[flagged], [], [clean]] [] = Some (out', e)"
    by blast
  from r(3) q have "out' = [''Non-finite number found!'']" "e = Some AttributeError"
    by simp_all
  with r(1,2) have "\<exists>n. quality_check_cell [[flagged], [], [clean]] []
          = Some (([[flagged], [], [clean]], [''Non-finite number found!'']), Some AttributeError, n)
        \<and> n \<le> 3"
    by auto
  with a show ?thesis by blast
qed

section \<open>Aperture photometry\<close>

lemma row_select:
  assumes "length r = length a"
  shows "map fst (filter snd (zip r (map (\<lambda>x. x = v) a)))
         = map (\<lambda>j. r ! j) (filter (\<lambda>j. a ! j = v) [0..<length r])"
proof -
  have "zip r (map (\<lambda>x. x = v) a) = map (\<lambda>j. (r ! j, a ! j = v)) [0..<length r]"
    using assms by (intro nth_equalityI) simp_all
  then show ?thesis
    by (simp add: filter_map comp_def)
qed

lemma matrix_select:
  assumes "map length img = map length aperture"
  shows "map fst (filter snd (zip (concat img) (concat (eq_scalar aperture v))))
         = concat (map (\<lambda>i. map (\<lambda>j. img ! i ! j) (filter (\<lambda>j. aperture ! i ! j = v) [0..<length (img ! i)]))
                    [0..<length img])"
  using assms
proof (induction img arbitrary: aperture rule: rev_induct)
  case Nil
  then show ?case by (simp add: eq_scalar_def)
next
  case (snoc r img)
  then obtain ap a where ap: "aperture = ap @ [a]" "map length img = map length ap" "length r = length a"
    by (cases aperture rule: rev_cases) auto
  have len: "length img = length ap" using ap(2) by (metis length_map)
  have lc: "length (concat img) = length (concat (eq_scalar ap v))"
    using ap(2) by (simp add: length_concat eq_scalar_def comp_def)
  have old: "map (\<lambda>i. map (\<lambda>j. (img @ [r]) ! i ! j) (filter (\<lambda>j. aperture ! i ! j = v) [0..<length ((img @ [r]) ! i)]))
                 [0..<length img]
           = map (\<lambda>i. map (\<lambda>j. img ! i ! j) (filter (\<lambda>j. ap ! i ! j = v) [0..<length (img ! i)]))
                 [0..<length img]"
    using len by (intro map_cong refl) (auto simp: ap(1) nth_append)
  have last: "(img @ [r]) ! length img = r" "aperture ! length img = a"
    using len by (simp_all add: ap(1) nth_append)
  have "map fst (filter snd (zip (concat (img @ [r])) (concat (eq_scalar aperture v))))
      = map fst (filter snd (zip (concat img) (concat (eq_scalar ap v))))
        @ map fst (filter snd (zip r (map (\<lambda>x. x = v) a)))"
    using lc by (simp add: ap(1) eq_scalar_def)
  also have "\<dots> = concat (map (\<lambda>i. map (\<lambda>j. img ! i ! j) (filter (\<lambda>j. ap ! i ! j = v) [0..<length (img ! i)]))
                    [0..<length img])
                 @ map (\<lambda>j. r ! j) (filter (\<lambda>j. a ! j = v) [0..<length r])"
    using snoc.IH[OF ap(2)] row_select[OF ap(3)] by simp
  also have "\<dots> = concat (map (\<lambda>i. map (\<lambda>j. (img @ [r]) ! i ! j)
                          (filter (\<lambda>j. aperture ! i ! j = v) [0..<length ((img @ [r]) ! i)]))
                    [0..<length (img @ [r])])"
    by (simp add: old last)
  finally show ?case .
qed

lemma aperture_values_positions:
  "map (\<lambda>(i, j). img ! i ! j) (aperture_positions img aperture)
   = concat (map (\<lambda>i. map (\<lambda>j. img ! i ! j) (filter (\<lambda>j. aperture ! i ! j = 1) [0..<length (img ! i)]))
               [0..<length img])"
  by (simp add: aperture_positions_def map_concat comp_def)


lemma distinct_positions_upto:
  "distinct (concat (map (\<lambda>i. map (\<lambda>j. (i, j)) (filter (P i) [0..<m i])) [0..<n]))"
proof (induction n)
  case 0
  show ?case by simp
next
  case (Suc n)
  then show ?case by (auto simp: distinct_map inj_on_def)
qed

lemma distinct_aperture_positions: "distinct (aperture_positions img aperture)"
  unfolding aperture_positions_def by (rule distinct_positions_upto)

lemma aperture_phot_select:
  "aperture_phot reduce img aperture =
     (if same_shape img aperture
      then Inr (np_sum reduce (map (\<lambda>(i, j). img ! i ! j) (aperture_positions img aperture)))
      else Inl IndexError)"
proof -
  have s: "same_shape img (eq_scalar aperture 1) = same_shape img aperture"
    by (simp add: same_shape_def eq_scalar_def comp_def)
  show ?thesis
  proof (cases "same_shape img aperture")
    case True
    then have "map length img = map length aperture" by (simp add: same_shape_def)
    from matrix_select[OF this, of 1] True show ?thesis
      by (simp add: aperture_phot_def bool_index_def s aperture_values_positions)
  next
    case False
    then show ?thesis by (simp add: aperture_phot_def bool_index_def s)
  qed
qed




text \<open>
  Where the reduction is exact, the sum of a commutative monoid, as numpy's is only on
  values that it neither rounds nor overflows, the result is the sum over the set of
  those positions.
\<close>

lemma aperture_phot_exact_reduction:
  fixes img :: "'a::comm_monoid_add list list"
  assumes "same_shape img aperture"
  shows "aperture_phot sum_list img aperture
         = Inr (\<Sum>(i, j)\<in>set (aperture_positions img aperture). img ! i ! j)"
proof -
  have "np_sum sum_list xs = sum_list xs" for xs :: "'a list"
    by (simp add: np_sum_def)
  moreover have "sum_list (map (\<lambda>(i, j). img ! i ! j) (aperture_positions img aperture))
      = (\<Sum>(i, j)\<in>set (aperture_positions img aperture). img ! i ! j)"
    by (rule sum_list_distinct_conv_sum_set) (rule distinct_aperture_positions)
  ultimately show ?thesis
    using assms aperture_phot_select[of sum_list img aperture] by simp
qed





section \<open>FITS handles and cells\<close>

lemma exec_scoped:
  "scoped s \<Longrightarrow> fst (exec_stmt raises s hs) = hs"
  "list_all scoped ss \<Longrightarrow> fst (exec_block raises ss hs) = hs"
proof (induction raises s hs and raises ss hs rule: exec_stmt_exec_block.induct)
  case (3 raises v body hs)
  then show ?case by (auto split: prod.splits)
next
  case (5 raises s ss hs)
  then show ?case by (auto split: prod.splits bool.splits)
qed simp_all

text \<open>
  \<^bold>\<open>C3.\<close> Not every handle is closed in the cell that opened it. The cell of
  01-Lightcurves that opens the light-curve file and the target-pixel file binds the two
  handles by plain assignment; it ends without an exception and with both handles open,
  and the cells after it read from them.
\<close>

theorem lightcurves_cell_leaves_handles_open:
  "exec_block no_exception lightcurves_open_cell [] = ([''tp_fits'', ''lc_fits''], False)"
  by (simp add: lightcurves_open_cell_def no_exception_def)

text \<open>
  \<^bold>\<open>C3, as the code has it.\<close> A cell in which every \<^verbatim>\<open>fits.open\<close> is the context
  expression of a \<^verbatim>\<open>with\<close> block ends with the handles that were open when it began,
  whichever of its statements raise: no handle it opened outlives it. The cell of the
  image notebook is of that form.
\<close>

theorem scoped_cell_closes_its_handles:
  assumes "list_all scoped cell"
  shows "fst (exec_block raises cell hs) = hs"
  using assms by (rule exec_scoped(2))

theorem scoped_cell_closes_its_handles_witness:
  "list_all scoped image_open_cell \<and> fst (exec_block no_exception image_open_cell []) = []"
proof -
  have s: "list_all scoped image_open_cell"
    by (simp add: image_open_cell_def)
  show ?thesis
    using s scoped_cell_closes_its_handles[OF s, of no_exception "[]"] by simp
qed

section \<open>The import cell\<close>

lemma try_import_completes:
  "try_import imp inst s = (s', None) \<Longrightarrow> \<exists>s0. imp s0 = (s', None)"
  by (auto simp: try_import_def split: prod.splits option.splits)

text \<open>
  \<^bold>\<open>C4.\<close> The control flow the cell is written for would do what its comment says: it
  completes only through an import that succeeded (\<open>try_import_completes\<close>). The cell as
  written does not get that far. Its install line is a command without the escape, in a
  cell of several lines, so the cell is rejected with SyntaxError in every kernel state:
  nothing is imported and nothing is installed.
\<close>

theorem import_cell_is_rejected:
  "run_import_cell imp inst s = (s, Some SyntaxError)"
  by (simp add: run_import_cell_def transform_cell_def import_cell_source_def)

section \<open>The confusion matrix\<close>

lemma sum_list_Finite: "sum_list (map Finite xs) = Finite (sum_list xs)"
  by (induction xs) (simp_all add: zero_npfloat_def)

lemma sum_list_real: "sum_list (map real xs) = real (sum_list xs)"
  by (induction xs) simp_all

lemma normalize_rows_nth:
  "i < length cm \<Longrightarrow> normalize_rows cm ! i = map (\<lambda>x. true_divide x (sum_list (cm ! i))) (cm ! i)"
  by (simp add: normalize_rows_def sum_axis1_def)

lemma normalize_row_sum:
  assumes "i < length cm" and "sum_list (cm ! i) \<noteq> 0"
  shows "sum_list (normalize_rows cm ! i) = 1"
proof -
  let ?s = "sum_list (cm ! i)"
  have "normalize_rows cm ! i = map Finite (map (\<lambda>x. x / ?s) (cm ! i))"
    using assms by (simp add: normalize_rows_nth true_divide_def)
  then have "sum_list (normalize_rows cm ! i) = Finite (sum_list (map (\<lambda>x. x / ?s) (cm ! i)))"
    by (simp only: sum_list_Finite)
  also have "sum_list (map (\<lambda>x. x / ?s) (cm ! i)) = ?s / ?s"
    by (simp add: divide_inverse sum_list_mult_const)
  finally show ?thesis
    using assms(2) by (simp add: one_npfloat_def)
qed



lemma binarize_example: "binarize example_predictions = [1, 0, 1, 0]"
  by (simp add: binarize_def example_predictions_def)

lemma confusion_matrix_example:
  "confusion_matrix example_labels (binarize example_predictions) = Inr [[1, 1], [1, 1]]"
  by (simp add: binarize_example) (simp add: confusion_matrix_def example_labels_def)

text \<open>
  \<^bold>\<open>C2.\<close> In \<open>plot_confusion_matrix\<close>, with \<open>cm\<close> the confusion matrix of the input
  labels and the binarized predictions: for every row of \<open>cm\<close> whose sum is not zero,
  each entry of that row of \<open>cm_norm\<close> is the entry of \<open>cm\<close> divided by the row's sum,
  and the row of \<open>cm_norm\<close> sums to 1. \<open>cm_norm\<close> is what the function draws.
\<close>

theorem plot_confusion_matrix_normalizes_rows:
  assumes "confusion_matrix input_labels (binarize (cnn input_data)) = Inr cm"
    and "i < length cm" and "sum_list (cm ! i) \<noteq> 0"
  shows "\<exists>cm_norm. plot_confusion_matrix cnn input_data input_labels = Inr cm_norm
           \<and> (\<forall>j<length (cm ! i). cm_norm ! i ! j = Finite (real (cm ! i ! j) / real (sum_list (cm ! i))))
           \<and> sum_list (cm_norm ! i) = 1"
proof -
  let ?cm = "astype_float cm"
  have p: "plot_confusion_matrix cnn input_data input_labels = Inr (normalize_rows ?cm)"
    using assms(1) by (simp add: plot_confusion_matrix_def)
  have i: "i < length ?cm" and row: "?cm ! i = map real (cm ! i)"
    using assms(2) by (simp_all add: astype_float_def)
  have s: "sum_list (?cm ! i) = real (sum_list (cm ! i))"
    unfolding row by (rule sum_list_real)
  have nz: "sum_list (?cm ! i) \<noteq> 0" using assms(3) s by simp
  have "\<forall>j<length (cm ! i). normalize_rows ?cm ! i ! j = Finite (real (cm ! i ! j) / real (sum_list (cm ! i)))"
    using nz by (simp add: normalize_rows_nth[OF i] true_divide_def s[symmetric]) (simp add: row)
  moreover have "sum_list (normalize_rows ?cm ! i) = 1"
    by (rule normalize_row_sum[OF i nz])
  ultimately show ?thesis using p by simp
qed

theorem plot_confusion_matrix_normalizes_rows_witness:
  "confusion_matrix example_labels (binarize (id example_predictions)) = Inr [[1, 1], [1, 1]]
   \<and> 0 < length [[1, 1], [1, 1 :: nat]]
   \<and> sum_list ([[1, 1], [1, 1 :: nat]] ! 0) \<noteq> 0
   \<and> (\<exists>cm_norm. plot_confusion_matrix id example_predictions example_labels = Inr cm_norm
         \<and> cm_norm ! 0 ! 0 = Finite (1 / 2) \<and> cm_norm ! 0 ! 1 = Finite (1 / 2)
         \<and> sum_list (cm_norm ! 0) = 1)"
proof -
  have c: "confusion_matrix example_labels (binarize (id example_predictions)) = Inr [[1, 1], [1, 1]]"
    by (simp add: confusion_matrix_example)
  have l: "0 < length [[1, 1], [1, 1 :: nat]]" and nz: "sum_list ([[1, 1], [1, 1 :: nat]] ! 0) \<noteq> 0"
    by simp_all
  from plot_confusion_matrix_normalizes_rows[where cnn = id and input_data = example_predictions
      and input_labels = example_labels and cm = "[[1, 1], [1, 1]]" and i = 0, OF c l nz]
  obtain cm_norm where n: "plot_confusion_matrix id example_predictions example_labels = Inr cm_norm"
    "\<forall>j<2. cm_norm ! 0 ! j = Finite (real ([1, 1] ! j) / 2)" "sum_list (cm_norm ! 0) = 1"
    by auto
  have "cm_norm ! 0 ! 0 = Finite (1 / 2)" "cm_norm ! 0 ! 1 = Finite (1 / 2)"
    using n(2) by simp_all
  with c l nz n show ?thesis by blast
qed



section \<open>The NaN filter\<close>

lemma fold_remove_nans_step:
  "fold (remove_nans_step d) ks acc = acc @ filter (\<lambda>k. nan_free (d ! k)) ks"
  by (induction ks arbitrary: acc)
     (auto simp: remove_nans_step_def nan_entries_def nan_free_def filter_empty_conv list_all_iff)

lemma remove_nans_filter:
  "remove_nans d = filter (\<lambda>k. nan_free (d ! k)) [0..<length d]"
  by (simp add: remove_nans_def fold_remove_nans_step)

lemma assign_eq_None:
  "assign rhs store st = (ds', None) \<longleftrightarrow> (\<exists>ds v. st = (ds, None) \<and> rhs ds = Inr v \<and> ds' = store ds v)"
  by (auto simp: assign_def split: prod.splits option.splits sum.splits)

lemma fancy_index_Inr:
  "fancy_index a idx = Inr v \<Longrightarrow> v = map (\<lambda>i. a ! i) idx \<and> (\<forall>i\<in>set idx. i < length a)"
  by (auto simp: fancy_index_def list_all_iff split: if_splits)

lemma gather_remove_nans: "map (\<lambda>i. d ! i) (remove_nans d) = filter nan_free d"
proof -
  have "filter nan_free d = filter nan_free (map (\<lambda>i. d ! i) [0..<length d])"
    by (simp add: map_nth)
  also have "\<dots> = map (\<lambda>i. d ! i) (remove_nans d)"
    by (simp add: filter_map comp_def remove_nans_filter)
  finally show ?thesis by simp
qed

lemma nan_filter_cell_result:
  assumes "nan_filter_cell ds = (ds', None)"
  shows "train_data ds' = filter nan_free (train_data ds)"
    and "train_labels ds' = map (\<lambda>i. train_labels ds ! i) (remove_nans (train_data ds))"
    and "test_data ds' = filter nan_free (test_data ds)"
    and "test_labels ds' = map (\<lambda>i. test_labels ds ! i) (remove_nans (test_data ds))"
    and "val_data ds' = filter nan_free (val_data ds)"
    and "val_labels ds' = map (\<lambda>i. val_labels ds ! i) (remove_nans (val_data ds))"
proof -
  from assms obtain v1 v2 v3 v4 v5 v6 where
    ds': "ds' = ds\<lparr>train_data := v1, train_labels := v2, test_data := v3, test_labels := v4,
                   val_data := v5, val_labels := v6\<rparr>"
    and v: "fancy_index (train_data ds) (remove_nans (train_data ds)) = Inr v1"
      "fancy_index (train_labels ds) (remove_nans (train_data ds)) = Inr v2"
      "fancy_index (test_data ds) (remove_nans (test_data ds)) = Inr v3"
      "fancy_index (test_labels ds) (remove_nans (test_data ds)) = Inr v4"
      "fancy_index (val_data ds) (remove_nans (val_data ds)) = Inr v5"
      "fancy_index (val_labels ds) (remove_nans (val_data ds)) = Inr v6"
    unfolding nan_filter_cell_def Let_def by (auto simp: assign_eq_None)
  note vals = v[THEN fancy_index_Inr]
  show "train_data ds' = filter nan_free (train_data ds)"
    using vals by (simp add: ds' gather_remove_nans)
  show "train_labels ds' = map (\<lambda>i. train_labels ds ! i) (remove_nans (train_data ds))"
    using vals by (simp add: ds')
  show "test_data ds' = filter nan_free (test_data ds)"
    using vals by (simp add: ds' gather_remove_nans)
  show "test_labels ds' = map (\<lambda>i. test_labels ds ! i) (remove_nans (test_data ds))"
    using vals by (simp add: ds')
  show "val_data ds' = filter nan_free (val_data ds)"
    using vals by (simp add: ds' gather_remove_nans)
  show "val_labels ds' = map (\<lambda>i. val_labels ds ! i) (remove_nans (val_data ds))"
    using vals by (simp add: ds')
qed

lemma nan_filter_cell_example:
  "nan_filter_cell library_dataset =
     (library_dataset\<lparr>train_data := [[[Finite 2], [Finite 3]]], train_labels := [0]\<rparr>, None)"
  by (simp add: nan_filter_cell_def library_dataset_def remove_nans_def remove_nans_step_def
      nan_entries_def fancy_index_def assign_def upt_rec)

text \<open>The cell completes whenever each partition has a label for every segment, as
  the library's datasets do.\<close>

lemma fancy_index_remove_nans:
  "length d \<le> length a \<Longrightarrow> fancy_index a (remove_nans d) = Inr (map (\<lambda>i. a ! i) (remove_nans d))"
  by (auto simp: fancy_index_def remove_nans_filter list_all_iff)

lemma nan_filter_cell_completes:
  assumes "length (train_data ds) \<le> length (train_labels ds)"
    and "length (test_data ds) \<le> length (test_labels ds)"
    and "length (val_data ds) \<le> length (val_labels ds)"
  shows "snd (nan_filter_cell ds) = None"
  using assms by (simp add: nan_filter_cell_def Let_def assign_def fancy_index_remove_nans)

text \<open>
  \<^bold>\<open>C6.\<close> The partitions are not left as the library produced them. On a dataset whose
  training partition has a segment with a NaN, the cell completes and the dataset it
  leaves is another one: that segment and its label are gone.
\<close>

theorem nan_filter_cell_changes_partitions:
  "snd (nan_filter_cell library_dataset) = None
   \<and> fst (nan_filter_cell library_dataset) \<noteq> library_dataset"
  by (simp add: nan_filter_cell_example) (simp add: library_dataset_def)

text \<open>
  \<^bold>\<open>C6, as the code has it.\<close> When the cell completes, the data of each partition is
  the library's data without the segments that contain a NaN, in the same order, and its
  labels are the library's labels at the indices of the segments kept. The data of a
  partition is as the library produced it exactly when none of its segments contains a
  NaN.
\<close>

theorem nan_filter_cell_restricts_partitions:
  assumes "nan_filter_cell ds = (ds', None)"
  shows "train_data ds' = filter nan_free (train_data ds)
       \<and> train_labels ds' = map (\<lambda>i. train_labels ds ! i) (remove_nans (train_data ds))
       \<and> test_data ds' = filter nan_free (test_data ds)
       \<and> test_labels ds' = map (\<lambda>i. test_labels ds ! i) (remove_nans (test_data ds))
       \<and> val_data ds' = filter nan_free (val_data ds)
       \<and> val_labels ds' = map (\<lambda>i. val_labels ds ! i) (remove_nans (val_data ds))
       \<and> (train_data ds' = train_data ds) = list_all nan_free (train_data ds)
       \<and> (test_data ds' = test_data ds) = list_all nan_free (test_data ds)
       \<and> (val_data ds' = val_data ds) = list_all nan_free (val_data ds)"
  using nan_filter_cell_result[OF assms] by (simp add: filter_id_conv list_all_iff)

theorem nan_filter_cell_restricts_partitions_witness:
  "nan_filter_cell library_dataset =
     (library_dataset\<lparr>train_data := [[[Finite 2], [Finite 3]]], train_labels := [0]\<rparr>, None)
   \<and> filter nan_free (train_data library_dataset) = [[[Finite 2], [Finite 3]]]
   \<and> map (\<lambda>i. train_labels library_dataset ! i) (remove_nans (train_data library_dataset)) = [0]
   \<and> \<not> list_all nan_free (train_data library_dataset)"
proof -
  note t = nan_filter_cell_restricts_partitions[OF nan_filter_cell_example]
  have a: "filter nan_free (train_data library_dataset) = [[[Finite 2], [Finite 3]]]"
    using t[THEN conjunct1] by simp
  have b: "map (\<lambda>i. train_labels library_dataset ! i) (remove_nans (train_data library_dataset)) = [0]"
    using t[THEN conjunct2, THEN conjunct1] by simp
  have c: "\<not> list_all nan_free (train_data library_dataset)"
    by (simp add: library_dataset_def nan_free_def)
  from nan_filter_cell_example a b c show ?thesis
    by blast
qed

text \<open>
  \<^bold>\<open>C8.\<close> When the cell completes, in each of the three partitions the data and the
  labels have the same length, and no segment kept contains a NaN.
\<close>

theorem nan_filter_cell_lengths_and_no_nans:
  assumes "nan_filter_cell ds = (ds', None)"
  shows "length (train_data ds') = length (train_labels ds')
       \<and> length (test_data ds') = length (test_labels ds')
       \<and> length (val_data ds') = length (val_labels ds')
       \<and> list_all nan_free (train_data ds')
       \<and> list_all nan_free (test_data ds')
       \<and> list_all nan_free (val_data ds')"
proof -
  have "\<And>d. length (filter nan_free d) = length (remove_nans d)"
    by (simp add: gather_remove_nans[symmetric])
  then show ?thesis
    using nan_filter_cell_result[OF assms] by (simp add: list_all_iff)
qed

theorem nan_filter_cell_lengths_and_no_nans_witness:
  "nan_filter_cell library_dataset =
     (library_dataset\<lparr>train_data := [[[Finite 2], [Finite 3]]], train_labels := [0]\<rparr>, None)
   \<and> length (train_data (library_dataset\<lparr>train_data := [[[Finite 2], [Finite 3]]], train_labels := [0]\<rparr>))
     = length (train_labels (library_dataset\<lparr>train_data := [[[Finite 2], [Finite 3]]], train_labels := [0]\<rparr>))
   \<and> list_all nan_free (train_data (library_dataset\<lparr>train_data := [[[Finite 2], [Finite 3]]], train_labels := [0]\<rparr>))"
  using nan_filter_cell_lengths_and_no_nans[OF nan_filter_cell_example]
  by (simp add: nan_filter_cell_example)

end
